theory Spec2Isabelle
  imports Main
begin

section \<open>The atlas manager view of brainrender-napari\<close>

text \<open>
  A shallow embedding of \<^verbatim>\<open>widgets/atlas_manager_view.py\<close>. The view is a Qt table
  whose handlers run one after the other on the interface thread, so each handler is a
  function from the view's state to an error or the next state. What a handler does to
  the outside world (a dialog opened, a worker started, a signal emitted) is appended to
  a log kept in the state, in the order the handler does it.
\<close>

subsection \<open>Data\<close>

text \<open>The Python exceptions the view can raise.\<close>

datatype error = AssertionError | AttributeError | KeyError | IndexError | ValueError

text \<open>
  One entry of the dictionary returned by \<^verbatim>\<open>get_atlases_lastversions()\<close>; the view
  reads only the key \<^verbatim>\<open>"updated"\<close>.
\<close>

record atlas_version =
  updated :: bool

text \<open>
  The atlas API as the view consults it: the results of \<^verbatim>\<open>get_downloaded_atlases()\<close>,
  \<^verbatim>\<open>get_atlases_lastversions()\<close> and \<^verbatim>\<open>get_all_atlases_lastversions()\<close> at the
  moment of the call.
\<close>

record api =
  downloaded_atlases :: "string list"
  atlases_lastversions :: "string \<rightharpoonup> atlas_version"
  all_atlases_lastversions :: "string \<rightharpoonup> string"

text \<open>The two operations of the atlas API that a worker can run.\<close>

datatype operation = Install_atlas | Update_atlas

text \<open>The two completion signals of the view.\<close>

datatype signal = Download_atlas_confirmed | Update_atlas_confirmed

text \<open>
  A signal emission with its payload: a completion signal carries the worker's result,
  \<^verbatim>\<open>progress_updated\<close> carries completed, total, atlas name and operation type.
  The signals are declared \<^verbatim>\<open>Signal(str)\<close> and \<^verbatim>\<open>Signal(int, int, str, object)\<close>:
  the two counts of \<^verbatim>\<open>progress_updated\<close> are C integers of 32 bits.
\<close>

datatype emission =
  Confirmed signal string
| Progress_updated int int string string

text \<open>The slot connected to a dialog's \<^verbatim>\<open>ok_button.clicked\<close>.\<close>

datatype slot = On_download_atlas_confirmed | On_update_atlas_confirmed

text \<open>
  An \<^verbatim>\<open>AtlasManagerDialog(atlas_name, action)\<close> that has been opened, with the slot
  its ok button is connected to.
\<close>

record dialog =
  dialog_atlas_name :: string
  dialog_action :: string
  ok_clicked :: slot

text \<open>
  A started worker: the arguments of \<^verbatim>\<open>_start_worker\<close>, which the closures
  \<^verbatim>\<open>update_fn\<close> and \<^verbatim>\<open>lambda result: signal.emit(result)\<close> capture.
\<close>

record worker =
  w_operation :: operation
  w_atlas_name :: string
  w_signal :: signal
  w_operation_type :: string

text \<open>
  The view. \<open>table\<close> is the data of the table model, one row per atlas, and
  \<open>current_index\<close> the current index of the selection model (row and column), \<open>None\<close>
  when it is not valid. The two cached attributes are \<open>None\<close> as long as the attribute
  has not been assigned. \<open>dialogs\<close>, \<open>workers\<close> and \<open>emitted\<close> log the dialogs opened,
  the workers started and the signals emitted.
\<close>

record view =
  table :: "string list list"
  current_index :: "(nat \<times> nat) option"
  cached_downloaded_atlases :: "string list option"
  cached_atlas_versions :: "(string \<rightharpoonup> atlas_version) option"
  dialogs :: "dialog list"
  workers :: "worker list"
  emitted :: "emission list"

subsection \<open>Construction and selection\<close>

text \<open>
  \<^verbatim>\<open>__init__\<close>: the model is attached and the double click connected; no cached
  attribute is assigned, nothing is selected. The calls that only change the appearance
  (header, column widths, the hidden column) have no field in the state.
\<close>

definition init_view :: "string list list \<Rightarrow> view" where
  "init_view rows =
     \<lparr>table = rows, current_index = None,
      cached_downloaded_atlases = None, cached_atlas_versions = None,
      dialogs = [], workers = [], emitted = []\<rparr>"

text \<open>
  Modelled from the spec: the table model \<^verbatim>\<open>AtlasTableModel\<close> is not among the
  sources; its \<^verbatim>\<open>data(index)\<close> is the cell of the row and column of the index, one
  row per atlas, and a cell outside the table is Python's \<^verbatim>\<open>IndexError\<close>.
\<close>

definition model_data :: "view \<Rightarrow> nat \<times> nat \<Rightarrow> error + string" where
  "model_data v idx =
     (case idx of (r, c) \<Rightarrow>
        if r < length (table v) \<and> c < length (table v ! r)
        then Inr (table v ! r ! c) else Inl IndexError)"

text \<open>\<^verbatim>\<open>selected_atlas_name\<close>: assert the current index valid, read its row at column 0.\<close>

definition selected_atlas_name :: "view \<Rightarrow> error + string" where
  "selected_atlas_name v =
     (case current_index v of
        None \<Rightarrow> Inl AssertionError
      | Some (r, c) \<Rightarrow> model_data v (r, 0))"

subsection \<open>Double click\<close>

definition open_dialog :: "string \<Rightarrow> string \<Rightarrow> slot \<Rightarrow> view \<Rightarrow> view" where
  "open_dialog atlas_name action sl v =
     v\<lparr>dialogs := dialogs v @
        [\<lparr>dialog_atlas_name = atlas_name, dialog_action = action, ok_clicked = sl\<rparr>]\<rparr>"

text \<open>
  \<^verbatim>\<open>_on_row_double_clicked\<close>. Reading a cached attribute that was never assigned
  raises \<^verbatim>\<open>AttributeError\<close>, a name missing from the cached dictionary
  \<^verbatim>\<open>KeyError\<close>.
\<close>

definition on_row_double_clicked :: "view \<Rightarrow> error + view" where
  "on_row_double_clicked v =
     (case selected_atlas_name v of
        Inl e \<Rightarrow> Inl e
      | Inr atlas_name \<Rightarrow>
          (case cached_downloaded_atlases v of
             None \<Rightarrow> Inl AttributeError
           | Some cached \<Rightarrow>
               if atlas_name \<in> set cached then
                 (case cached_atlas_versions v of
                    None \<Rightarrow> Inl AttributeError
                  | Some versions \<Rightarrow>
                      (case versions atlas_name of
                         None \<Rightarrow> Inl KeyError
                       | Some ver \<Rightarrow>
                           if \<not> updated ver
                           then Inr (open_dialog atlas_name ''Update''
                                       On_update_atlas_confirmed v)
                           else Inr v))
               else Inr (open_dialog atlas_name ''Download''
                           On_download_atlas_confirmed v)))"

subsection \<open>Workers\<close>

text \<open>
  \<^verbatim>\<open>_start_worker\<close>: the worker is created with the operation, the atlas name and
  the two closures, and started.
\<close>

definition start_worker :: "operation \<Rightarrow> string \<Rightarrow> signal \<Rightarrow> string \<Rightarrow> view \<Rightarrow> view" where
  "start_worker op atlas_name sig operation_type v =
     v\<lparr>workers := workers v @
        [\<lparr>w_operation = op, w_atlas_name = atlas_name, w_signal = sig,
          w_operation_type = operation_type\<rparr>]\<rparr>"

text \<open>
  What an \<^verbatim>\<open>int\<close> argument of a signal delivers of the Python integer it is given:
  the integer reduced modulo \<open>2^32\<close> into the signed range of a C integer, from
  \<open>-2^31\<close> to \<open>2^31 - 1\<close>.
\<close>

definition signal_int :: "int \<Rightarrow> int" where
  "signal_int n = (n + 2147483648) mod 4294967296 - 2147483648"

text \<open>
  The closure \<^verbatim>\<open>update_fn(completed, total)\<close> of a worker: it emits
  \<^verbatim>\<open>progress_updated\<close>, whose first two arguments are declared \<^verbatim>\<open>int\<close>.
\<close>

definition update_fn :: "worker \<Rightarrow> int \<Rightarrow> int \<Rightarrow> view \<Rightarrow> view" where
  "update_fn w completed total' v =
     v\<lparr>emitted := emitted v @
        [Progress_updated (signal_int completed) (signal_int total')
           (w_atlas_name w) (w_operation_type w)]\<rparr>"

text \<open>The slot \<^verbatim>\<open>lambda result: signal.emit(result)\<close> connected to \<^verbatim>\<open>worker.returned\<close>.\<close>

definition worker_returned :: "worker \<Rightarrow> string \<Rightarrow> view \<Rightarrow> view" where
  "worker_returned w result v =
     v\<lparr>emitted := emitted v @ [Confirmed (w_signal w) result]\<rparr>"

text \<open>
  One run of a worker, \<^verbatim>\<open>_apply_in_thread\<close>: the operation calls the progress
  callback some number of times, then returns a result (\<open>Some\<close>) or raises (\<open>None\<close>, and
  \<^verbatim>\<open>returned\<close> is never signalled). What the operation reports and returns is the
  atlas API's business, so both are arguments.
\<close>

definition run_worker :: "worker \<Rightarrow> (int \<times> int) list \<Rightarrow> string option \<Rightarrow> view \<Rightarrow> view" where
  "run_worker w ticks outcome v =
     (let v' = fold (\<lambda>(completed, total'). update_fn w completed total') ticks v
      in case outcome of None \<Rightarrow> v' | Some result \<Rightarrow> worker_returned w result v')"

subsection \<open>Confirmation\<close>

text \<open>\<^verbatim>\<open>_refresh_cached_atlases\<close>: both cached attributes are assigned from the API.\<close>

definition refresh_cached_atlases :: "api \<Rightarrow> view \<Rightarrow> view" where
  "refresh_cached_atlases a v =
     v\<lparr>cached_downloaded_atlases := Some (downloaded_atlases a),
       cached_atlas_versions := Some (atlases_lastversions a)\<rparr>"

text \<open>\<^verbatim>\<open>_on_download_atlas_confirmed\<close>.\<close>

definition on_download_atlas_confirmed :: "api \<Rightarrow> view \<Rightarrow> error + view" where
  "on_download_atlas_confirmed a v =
     (case selected_atlas_name v of
        Inl e \<Rightarrow> Inl e
      | Inr atlas_name \<Rightarrow>
          Inr (refresh_cached_atlases a
                 (start_worker Install_atlas atlas_name Download_atlas_confirmed
                    ''Downloading'' v)))"

text \<open>\<^verbatim>\<open>_on_update_atlas_confirmed\<close>.\<close>

definition on_update_atlas_confirmed :: "api \<Rightarrow> view \<Rightarrow> error + view" where
  "on_update_atlas_confirmed a v =
     (case selected_atlas_name v of
        Inl e \<Rightarrow> Inl e
      | Inr atlas_name \<Rightarrow>
          Inr (refresh_cached_atlases a
                 (start_worker Update_atlas atlas_name Update_atlas_confirmed
                    ''Updating'' v)))"

text \<open>Clicking the ok button of an opened dialog calls the slot connected to it.\<close>

definition click_ok :: "dialog \<Rightarrow> api \<Rightarrow> view \<Rightarrow> error + view" where
  "click_ok d a v =
     (case ok_clicked d of
        On_download_atlas_confirmed \<Rightarrow> on_download_atlas_confirmed a v
      | On_update_atlas_confirmed \<Rightarrow> on_update_atlas_confirmed a v)"

subsection \<open>Tooltip\<close>

text \<open>
  \<^verbatim>\<open>get_tooltip_text\<close>, a class method: it reads the API, not the view.
  \<^verbatim>\<open>format_atlas_name\<close> is not among the sources and is the argument \<open>fmt\<close>.
\<close>

definition get_tooltip_text :: "(string \<Rightarrow> string) \<Rightarrow> api \<Rightarrow> string \<Rightarrow> error + string" where
  "get_tooltip_text fmt a atlas_name =
     (if atlas_name \<in> set (downloaded_atlases a) then
        (case atlases_lastversions a atlas_name of
           None \<Rightarrow> Inl KeyError
         | Some ver \<Rightarrow>
             if updated ver then Inr (fmt atlas_name @ '' is up-to-date'')
             else Inr (fmt atlas_name @ '' (double-click to update)''))
      else if atlas_name \<in> dom (all_atlases_lastversions a) then
        Inr (fmt atlas_name @ '' (double-click to download)'')
      else Inl ValueError)"

subsection \<open>Example states\<close>

text \<open>A table of three atlases, the second of them selected.\<close>

definition example_rows :: "string list list" where
  "example_rows =
     [[''allen_mouse_100um'', ''Allen mouse (100 um)''],
      [''example_mouse_100um'', ''Example mouse (100 um)''],
      [''mpin_zfish_1um'', ''Mpin zfish (1 um)'']]"

text \<open>
  The API before anything is installed locally except \<^verbatim>\<open>allen_mouse_100um\<close> (stale)
  and \<^verbatim>\<open>mpin_zfish_1um\<close> (up to date).
\<close>

definition example_api :: api where
  "example_api =
     \<lparr>downloaded_atlases = [''allen_mouse_100um'', ''mpin_zfish_1um''],
      atlases_lastversions =
        [''allen_mouse_100um'' \<mapsto> \<lparr>updated = False\<rparr>,
         ''mpin_zfish_1um'' \<mapsto> \<lparr>updated = True\<rparr>],
      all_atlases_lastversions =
        [''allen_mouse_100um'' \<mapsto> ''1.2'', ''example_mouse_100um'' \<mapsto> ''1.2'',
         ''mpin_zfish_1um'' \<mapsto> ''1.0'']\<rparr>"

text \<open>A view whose cache holds that API, with the row \<open>r\<close> selected.\<close>

definition example_view :: "nat \<Rightarrow> view" where
  "example_view r =
     \<lparr>table = example_rows, current_index = Some (r, 1),
      cached_downloaded_atlases = Some (downloaded_atlases example_api),
      cached_atlas_versions = Some (atlases_lastversions example_api),
      dialogs = [], workers = [], emitted = []\<rparr>"

text \<open>A view whose cache is empty although the API has atlases, row \<open>r\<close> selected.\<close>

definition stale_view :: "nat \<Rightarrow> view" where
  "stale_view r =
     \<lparr>table = example_rows, current_index = Some (r, 1),
      cached_downloaded_atlases = Some [],
      cached_atlas_versions = Some Map.empty,
      dialogs = [], workers = [], emitted = []\<rparr>"

text \<open>
  An API in which a locally present atlas has no entry among the latest versions, as for
  an atlas that is not an official one.
\<close>

definition custom_api :: api where
  "custom_api =
     \<lparr>downloaded_atlases = [''my_custom_10um''],
      atlases_lastversions = Map.empty,
      all_atlases_lastversions = [''allen_mouse_100um'' \<mapsto> ''1.2'']\<rparr>"

subsection \<open>The life of a view\<close>

text \<open>
  The states a view goes through when only its own connections act on it: the selection
  changes, a row is double clicked, the ok button of a dialog the view has opened is
  clicked, a worker the view has started reports progress or returns. A handler that
  raises leaves the state as it was.
\<close>

inductive reachable :: "string list list \<Rightarrow> view \<Rightarrow> bool" for rows where
  constructed: "reachable rows (init_view rows)"
| selection_changed: "reachable rows v \<Longrightarrow> reachable rows (v\<lparr>current_index := idx\<rparr>)"
| double_clicked:
    "reachable rows v \<Longrightarrow> on_row_double_clicked v = Inr v' \<Longrightarrow> reachable rows v'"
| ok_clicked:
    "reachable rows v \<Longrightarrow> d \<in> set (dialogs v) \<Longrightarrow> click_ok d a v = Inr v' \<Longrightarrow>
     reachable rows v'"
| progress_reported:
    "reachable rows v \<Longrightarrow> w \<in> set (workers v) \<Longrightarrow>
     reachable rows (update_fn w completed total' v)"
| returned:
    "reachable rows v \<Longrightarrow> w \<in> set (workers v) \<Longrightarrow>
     reachable rows (worker_returned w result v)"

section \<open>Properties\<close>

subsection \<open>What each handler leaves alone\<close>

lemma fold_update_fn_emitted:
  "emitted (fold (\<lambda>(completed, total'). update_fn w completed total') ticks v) =
     emitted v @
     map (\<lambda>(completed, total').
            Progress_updated (signal_int completed) (signal_int total')
              (w_atlas_name w) (w_operation_type w)) ticks"
  by (induction ticks arbitrary: v) (auto simp: update_fn_def)

lemma fold_update_fn_cached:
  "cached_downloaded_atlases
     (fold (\<lambda>(completed, total'). update_fn w completed total') ticks v) =
     cached_downloaded_atlases v \<and>
   cached_atlas_versions
     (fold (\<lambda>(completed, total'). update_fn w completed total') ticks v) =
     cached_atlas_versions v"
  by (induction ticks arbitrary: v) (auto simp: update_fn_def)

lemma run_worker_emitted:
  "emitted (run_worker w ticks outcome v) =
     emitted v @
     map (\<lambda>(completed, total').
            Progress_updated (signal_int completed) (signal_int total')
              (w_atlas_name w) (w_operation_type w)) ticks @
     (case outcome of None \<Rightarrow> [] | Some result \<Rightarrow> [Confirmed (w_signal w) result])"
  by (simp add: run_worker_def Let_def worker_returned_def fold_update_fn_emitted
      split: option.splits)

lemma run_worker_cached:
  "cached_downloaded_atlases (run_worker w ticks outcome v) = cached_downloaded_atlases v \<and>
   cached_atlas_versions (run_worker w ticks outcome v) = cached_atlas_versions v"
  by (simp add: run_worker_def Let_def worker_returned_def fold_update_fn_cached
      split: option.splits)


lemma on_row_double_clicked_cached:
  assumes "on_row_double_clicked v = Inr v'"
  shows "cached_downloaded_atlases v' = cached_downloaded_atlases v \<and>
         cached_atlas_versions v' = cached_atlas_versions v"
  using assms
  by (auto simp: on_row_double_clicked_def open_dialog_def
      split: sum.splits option.splits if_splits)

lemma selected_atlas_name_open_dialog:
  "selected_atlas_name (v\<lparr>dialogs := ds\<rparr>) = selected_atlas_name v"
  by (simp add: selected_atlas_name_def model_data_def split: option.splits)

subsection \<open>Facts about the example states\<close>

lemma selected_example_view:
  "selected_atlas_name (example_view 0) = Inr ''allen_mouse_100um''"
  "selected_atlas_name (example_view 1) = Inr ''example_mouse_100um''"
  "selected_atlas_name (example_view 2) = Inr ''mpin_zfish_1um''"
  by (simp_all add: selected_atlas_name_def model_data_def example_view_def example_rows_def)

lemma cached_example_view:
  "cached_downloaded_atlases (example_view r) = Some [''allen_mouse_100um'', ''mpin_zfish_1um'']"
  "cached_atlas_versions (example_view r) = Some (atlases_lastversions example_api)"
  by (simp_all add: example_view_def example_api_def)

lemma double_click_example_view_1:
  "on_row_double_clicked (example_view 1) =
     Inr ((example_view 1)\<lparr>dialogs :=
       [\<lparr>dialog_atlas_name = ''example_mouse_100um'', dialog_action = ''Download'',
         ok_clicked = On_download_atlas_confirmed\<rparr>]\<rparr>)"
proof -
  have "dialogs (example_view 1) = []"
    by (simp add: example_view_def)
  then show ?thesis
    using selected_example_view(2) cached_example_view(1) [of 1]
    by (simp add: on_row_double_clicked_def open_dialog_def)
qed

lemma on_download_stale_view_1:
  "on_download_atlas_confirmed example_api (stale_view 1) =
     Inr \<lparr>table = example_rows, current_index = Some (1, 1),
          cached_downloaded_atlases = Some [''allen_mouse_100um'', ''mpin_zfish_1um''],
          cached_atlas_versions = Some (atlases_lastversions example_api),
          dialogs = [],
          workers = [\<lparr>w_operation = Install_atlas, w_atlas_name = ''example_mouse_100um'',
                      w_signal = Download_atlas_confirmed,
                      w_operation_type = ''Downloading''\<rparr>],
          emitted = []\<rparr>"
  by (simp add: on_download_atlas_confirmed_def selected_atlas_name_def model_data_def
      refresh_cached_atlases_def start_worker_def
      stale_view_def example_rows_def example_api_def)

lemma on_update_stale_view_0:
  "on_update_atlas_confirmed example_api (stale_view 0) =
     Inr \<lparr>table = example_rows, current_index = Some (0, 1),
          cached_downloaded_atlases = Some [''allen_mouse_100um'', ''mpin_zfish_1um''],
          cached_atlas_versions = Some (atlases_lastversions example_api),
          dialogs = [],
          workers = [\<lparr>w_operation = Update_atlas, w_atlas_name = ''allen_mouse_100um'',
                      w_signal = Update_atlas_confirmed, w_operation_type = ''Updating''\<rparr>],
          emitted = []\<rparr>"
  by (simp add: on_update_atlas_confirmed_def selected_atlas_name_def model_data_def
      refresh_cached_atlases_def start_worker_def
      stale_view_def example_rows_def example_api_def)

subsection \<open>Double click and confirmation\<close>

text \<open>
  C1, as the code has it. The claim that confirming the Download dialog opened for an
  atlas starts the install of that atlas fails: the handler takes the name from the
  selection at the moment the ok button is clicked, not from the dialog. Here the dialog
  is opened for \<^verbatim>\<open>example_mouse_100um\<close>, the selection moves to the first row, and
  the confirmation starts an install of \<^verbatim>\<open>allen_mouse_100um\<close>.
\<close>

theorem download_confirmation_counterexample:
  "on_row_double_clicked (example_view 1) =
     Inr ((example_view 1)\<lparr>dialogs :=
       [\<lparr>dialog_atlas_name = ''example_mouse_100um'', dialog_action = ''Download'',
         ok_clicked = On_download_atlas_confirmed\<rparr>]\<rparr>) \<and>
   click_ok
     \<lparr>dialog_atlas_name = ''example_mouse_100um'', dialog_action = ''Download'',
       ok_clicked = On_download_atlas_confirmed\<rparr>
     example_api
     ((example_view 1)\<lparr>dialogs :=
        [\<lparr>dialog_atlas_name = ''example_mouse_100um'', dialog_action = ''Download'',
          ok_clicked = On_download_atlas_confirmed\<rparr>],
        current_index := Some (0, 1)\<rparr>) =
     Inr \<lparr>table = example_rows, current_index = Some (0, 1),
          cached_downloaded_atlases = Some [''allen_mouse_100um'', ''mpin_zfish_1um''],
          cached_atlas_versions = Some (atlases_lastversions example_api),
          dialogs =
            [\<lparr>dialog_atlas_name = ''example_mouse_100um'', dialog_action = ''Download'',
              ok_clicked = On_download_atlas_confirmed\<rparr>],
          workers =
            [\<lparr>w_operation = Install_atlas, w_atlas_name = ''allen_mouse_100um'',
              w_signal = Download_atlas_confirmed, w_operation_type = ''Downloading''\<rparr>],
          emitted = []\<rparr>"
proof -
  have "click_ok
     \<lparr>dialog_atlas_name = ''example_mouse_100um'', dialog_action = ''Download'',
       ok_clicked = On_download_atlas_confirmed\<rparr>
     example_api
     ((example_view 1)\<lparr>dialogs :=
        [\<lparr>dialog_atlas_name = ''example_mouse_100um'', dialog_action = ''Download'',
          ok_clicked = On_download_atlas_confirmed\<rparr>],
        current_index := Some (0, 1)\<rparr>) =
     Inr \<lparr>table = example_rows, current_index = Some (0, 1),
          cached_downloaded_atlases = Some [''allen_mouse_100um'', ''mpin_zfish_1um''],
          cached_atlas_versions = Some (atlases_lastversions example_api),
          dialogs =
            [\<lparr>dialog_atlas_name = ''example_mouse_100um'', dialog_action = ''Download'',
              ok_clicked = On_download_atlas_confirmed\<rparr>],
          workers =
            [\<lparr>w_operation = Install_atlas, w_atlas_name = ''allen_mouse_100um'',
              w_signal = Download_atlas_confirmed, w_operation_type = ''Downloading''\<rparr>],
          emitted = []\<rparr>"
    by (simp add: click_ok_def on_download_atlas_confirmed_def selected_atlas_name_def
        model_data_def refresh_cached_atlases_def start_worker_def
        example_view_def example_rows_def example_api_def)
  then show ?thesis
    using double_click_example_view_1 by simp
qed

text \<open>
  C1, amended. When the selected atlas name is not in the cached downloaded list, a double
  click opens exactly one dialog, for that name and with the action Download, and leaves
  the selection on that name. Clicking the ok button of that dialog, in whatever state the
  view then is, starts exactly one worker, running the install operation for the atlas
  name selected at that moment, and starts none, raising, when the selection gives no
  name then. When that worker returns, the signals emitted since are its progress reports
  followed by exactly one \<^verbatim>\<open>download_atlas_confirmed\<close> carrying the result.
\<close>

theorem double_click_download:
  assumes "selected_atlas_name v = Inr atlas_name"
    and "cached_downloaded_atlases v = Some cached"
    and "atlas_name \<notin> set cached"
  shows
    "let d = \<lparr>dialog_atlas_name = atlas_name, dialog_action = ''Download'',
              ok_clicked = On_download_atlas_confirmed\<rparr>;
         w = \<lparr>w_operation = Install_atlas, w_atlas_name = selected,
              w_signal = Download_atlas_confirmed, w_operation_type = ''Downloading''\<rparr>
     in on_row_double_clicked v = Inr (v\<lparr>dialogs := dialogs v @ [d]\<rparr>) \<and>
        selected_atlas_name (v\<lparr>dialogs := dialogs v @ [d]\<rparr>) = Inr atlas_name \<and>
        (selected_atlas_name u = Inr selected \<longrightarrow>
           (\<exists>u'. click_ok d a u = Inr u' \<and>
                 workers u' = workers u @ [w] \<and>
                 dialogs u' = dialogs u \<and>
                 emitted u' = emitted u)) \<and>
        (selected_atlas_name u = Inl e \<longrightarrow> click_ok d a u = Inl e) \<and>
        emitted (run_worker w ticks (Some result) s) =
          emitted s @
          map (\<lambda>(c, t). Progress_updated (signal_int c) (signal_int t) selected
                 ''Downloading'') ticks @
          [Confirmed Download_atlas_confirmed result]"
proof -
  have dc: "on_row_double_clicked v =
      Inr (open_dialog atlas_name ''Download'' On_download_atlas_confirmed v)"
    using assms by (simp add: on_row_double_clicked_def)
  show ?thesis
    using assms(1)
    by (simp add: dc open_dialog_def click_ok_def on_download_atlas_confirmed_def
        selected_atlas_name_open_dialog refresh_cached_atlases_def start_worker_def
        run_worker_emitted)
qed

theorem double_click_download_witness:
  "selected_atlas_name (example_view 1) = Inr ''example_mouse_100um'' \<and>
   cached_downloaded_atlases (example_view 1) = Some [''allen_mouse_100um'', ''mpin_zfish_1um''] \<and>
   ''example_mouse_100um'' \<notin> set [''allen_mouse_100um'', ''mpin_zfish_1um''] \<and>
   on_row_double_clicked (example_view 1) =
     Inr ((example_view 1)\<lparr>dialogs :=
       [\<lparr>dialog_atlas_name = ''example_mouse_100um'', dialog_action = ''Download'',
         ok_clicked = On_download_atlas_confirmed\<rparr>]\<rparr>) \<and>
   selected_atlas_name (example_view 2) = Inr ''mpin_zfish_1um'' \<and>
   (\<exists>u'. click_ok
            \<lparr>dialog_atlas_name = ''example_mouse_100um'', dialog_action = ''Download'',
              ok_clicked = On_download_atlas_confirmed\<rparr>
            example_api (example_view 2) = Inr u' \<and>
          workers u' =
            [\<lparr>w_operation = Install_atlas, w_atlas_name = ''mpin_zfish_1um'',
              w_signal = Download_atlas_confirmed, w_operation_type = ''Downloading''\<rparr>]) \<and>
   selected_atlas_name (init_view example_rows) = Inl AssertionError \<and>
   click_ok
     \<lparr>dialog_atlas_name = ''example_mouse_100um'', dialog_action = ''Download'',
       ok_clicked = On_download_atlas_confirmed\<rparr>
     example_api (init_view example_rows) = Inl AssertionError \<and>
   emitted
     (run_worker
        \<lparr>w_operation = Install_atlas, w_atlas_name = ''mpin_zfish_1um'',
          w_signal = Download_atlas_confirmed, w_operation_type = ''Downloading''\<rparr>
        [(1, 2), (2, 2)] (Some ''installed'') (example_view 2)) =
     [Progress_updated 1 2 ''mpin_zfish_1um'' ''Downloading'',
      Progress_updated 2 2 ''mpin_zfish_1um'' ''Downloading'',
      Confirmed Download_atlas_confirmed ''installed'']"
proof -
  have h1: "selected_atlas_name (example_view 1) = Inr ''example_mouse_100um''"
    by (rule selected_example_view)
  have h2: "cached_downloaded_atlases (example_view 1) =
      Some [''allen_mouse_100um'', ''mpin_zfish_1um'']"
    by (rule cached_example_view)
  have h3: "''example_mouse_100um'' \<notin> set [''allen_mouse_100um'', ''mpin_zfish_1um'']"
    by simp
  have u1: "selected_atlas_name (example_view 2) = Inr ''mpin_zfish_1um''"
    by (rule selected_example_view)
  have u2: "selected_atlas_name (init_view example_rows) = Inl AssertionError"
    by (simp add: selected_atlas_name_def init_view_def)
  have e: "dialogs (example_view 1) = [] \<and> workers (example_view 2) = [] \<and>
      emitted (example_view 2) = []"
    by (simp add: example_view_def)
  have s: "signal_int 1 = 1 \<and> signal_int 2 = 2"
    by (simp add: signal_int_def)
  show ?thesis
    using h1 h2 h3 u1 u2 e s
      double_click_download [OF h1 h2 h3, where u = "example_view 2"
        and selected = "''mpin_zfish_1um''" and a = example_api
        and ticks = "[(1, 2), (2, 2)]" and result = "''installed''"
        and s = "example_view 2"]
      double_click_download [OF h1 h2 h3, where u = "init_view example_rows"
        and e = AssertionError and a = example_api]
    by (auto simp: Let_def)
qed

text \<open>
  C2, as the code has it. The claim that confirming the Update dialog opened for an atlas
  starts the update of that atlas fails in the same way: the dialog is opened for
  \<^verbatim>\<open>allen_mouse_100um\<close>, the selection moves to the second row, and the confirmation
  starts an update of \<^verbatim>\<open>example_mouse_100um\<close>.
\<close>

theorem update_confirmation_counterexample:
  "on_row_double_clicked (example_view 0) =
     Inr ((example_view 0)\<lparr>dialogs :=
       [\<lparr>dialog_atlas_name = ''allen_mouse_100um'', dialog_action = ''Update'',
         ok_clicked = On_update_atlas_confirmed\<rparr>]\<rparr>) \<and>
   click_ok
     \<lparr>dialog_atlas_name = ''allen_mouse_100um'', dialog_action = ''Update'',
       ok_clicked = On_update_atlas_confirmed\<rparr>
     example_api
     ((example_view 0)\<lparr>dialogs :=
        [\<lparr>dialog_atlas_name = ''allen_mouse_100um'', dialog_action = ''Update'',
          ok_clicked = On_update_atlas_confirmed\<rparr>],
        current_index := Some (1, 1)\<rparr>) =
     Inr \<lparr>table = example_rows, current_index = Some (1, 1),
          cached_downloaded_atlases = Some [''allen_mouse_100um'', ''mpin_zfish_1um''],
          cached_atlas_versions = Some (atlases_lastversions example_api),
          dialogs =
            [\<lparr>dialog_atlas_name = ''allen_mouse_100um'', dialog_action = ''Update'',
              ok_clicked = On_update_atlas_confirmed\<rparr>],
          workers =
            [\<lparr>w_operation = Update_atlas, w_atlas_name = ''example_mouse_100um'',
              w_signal = Update_atlas_confirmed, w_operation_type = ''Updating''\<rparr>],
          emitted = []\<rparr>"
proof -
  have dc: "on_row_double_clicked (example_view 0) =
     Inr ((example_view 0)\<lparr>dialogs :=
       [\<lparr>dialog_atlas_name = ''allen_mouse_100um'', dialog_action = ''Update'',
         ok_clicked = On_update_atlas_confirmed\<rparr>]\<rparr>)"
  proof -
    have "dialogs (example_view 0) = []"
      by (simp add: example_view_def)
    moreover have "atlases_lastversions example_api ''allen_mouse_100um'' =
        Some \<lparr>updated = False\<rparr>"
      by (simp add: example_api_def)
    ultimately show ?thesis
      using selected_example_view(1) cached_example_view [of 0]
      by (simp add: on_row_double_clicked_def open_dialog_def)
  qed
  have "click_ok
     \<lparr>dialog_atlas_name = ''allen_mouse_100um'', dialog_action = ''Update'',
       ok_clicked = On_update_atlas_confirmed\<rparr>
     example_api
     ((example_view 0)\<lparr>dialogs :=
        [\<lparr>dialog_atlas_name = ''allen_mouse_100um'', dialog_action = ''Update'',
          ok_clicked = On_update_atlas_confirmed\<rparr>],
        current_index := Some (1, 1)\<rparr>) =
     Inr \<lparr>table = example_rows, current_index = Some (1, 1),
          cached_downloaded_atlases = Some [''allen_mouse_100um'', ''mpin_zfish_1um''],
          cached_atlas_versions = Some (atlases_lastversions example_api),
          dialogs =
            [\<lparr>dialog_atlas_name = ''allen_mouse_100um'', dialog_action = ''Update'',
              ok_clicked = On_update_atlas_confirmed\<rparr>],
          workers =
            [\<lparr>w_operation = Update_atlas, w_atlas_name = ''example_mouse_100um'',
              w_signal = Update_atlas_confirmed, w_operation_type = ''Updating''\<rparr>],
          emitted = []\<rparr>"
    by (simp add: click_ok_def on_update_atlas_confirmed_def selected_atlas_name_def
        model_data_def refresh_cached_atlases_def start_worker_def
        example_view_def example_rows_def example_api_def)
  then show ?thesis
    using dc by simp
qed

text \<open>
  C2, amended. When the selected atlas name is in the cached downloaded list and its
  cached entry has \<^verbatim>\<open>updated\<close> false, a double click opens exactly one dialog, for that
  name and with the action Update, and leaves the selection on that name. Clicking the ok
  button of that dialog, in whatever state the view then is, starts exactly one worker,
  running the update operation for the atlas name selected at that moment, and starts
  none, raising, when the selection gives no name then. When that worker returns, the
  signals emitted since are its progress reports followed by exactly one
  \<^verbatim>\<open>update_atlas_confirmed\<close> carrying the result.
\<close>

theorem double_click_update:
  assumes "selected_atlas_name v = Inr atlas_name"
    and "cached_downloaded_atlases v = Some cached"
    and "atlas_name \<in> set cached"
    and "cached_atlas_versions v = Some versions"
    and "versions atlas_name = Some ver"
    and "\<not> updated ver"
  shows
    "let d = \<lparr>dialog_atlas_name = atlas_name, dialog_action = ''Update'',
              ok_clicked = On_update_atlas_confirmed\<rparr>;
         w = \<lparr>w_operation = Update_atlas, w_atlas_name = selected,
              w_signal = Update_atlas_confirmed, w_operation_type = ''Updating''\<rparr>
     in on_row_double_clicked v = Inr (v\<lparr>dialogs := dialogs v @ [d]\<rparr>) \<and>
        selected_atlas_name (v\<lparr>dialogs := dialogs v @ [d]\<rparr>) = Inr atlas_name \<and>
        (selected_atlas_name u = Inr selected \<longrightarrow>
           (\<exists>u'. click_ok d a u = Inr u' \<and>
                 workers u' = workers u @ [w] \<and>
                 dialogs u' = dialogs u \<and>
                 emitted u' = emitted u)) \<and>
        (selected_atlas_name u = Inl e \<longrightarrow> click_ok d a u = Inl e) \<and>
        emitted (run_worker w ticks (Some result) s) =
          emitted s @
          map (\<lambda>(c, t). Progress_updated (signal_int c) (signal_int t) selected
                 ''Updating'') ticks @
          [Confirmed Update_atlas_confirmed result]"
proof -
  have dc: "on_row_double_clicked v =
      Inr (open_dialog atlas_name ''Update'' On_update_atlas_confirmed v)"
    using assms by (simp add: on_row_double_clicked_def)
  show ?thesis
    using assms(1)
    by (simp add: dc open_dialog_def click_ok_def on_update_atlas_confirmed_def
        selected_atlas_name_open_dialog refresh_cached_atlases_def start_worker_def
        run_worker_emitted)
qed

theorem double_click_update_witness:
  "selected_atlas_name (example_view 0) = Inr ''allen_mouse_100um'' \<and>
   cached_downloaded_atlases (example_view 0) = Some [''allen_mouse_100um'', ''mpin_zfish_1um''] \<and>
   ''allen_mouse_100um'' \<in> set [''allen_mouse_100um'', ''mpin_zfish_1um''] \<and>
   cached_atlas_versions (example_view 0) = Some (atlases_lastversions example_api) \<and>
   atlases_lastversions example_api ''allen_mouse_100um'' = Some \<lparr>updated = False\<rparr> \<and>
   \<not> updated \<lparr>updated = False\<rparr> \<and>
   on_row_double_clicked (example_view 0) =
     Inr ((example_view 0)\<lparr>dialogs :=
       [\<lparr>dialog_atlas_name = ''allen_mouse_100um'', dialog_action = ''Update'',
         ok_clicked = On_update_atlas_confirmed\<rparr>]\<rparr>) \<and>
   selected_atlas_name (example_view 2) = Inr ''mpin_zfish_1um'' \<and>
   (\<exists>u'. click_ok
            \<lparr>dialog_atlas_name = ''allen_mouse_100um'', dialog_action = ''Update'',
              ok_clicked = On_update_atlas_confirmed\<rparr>
            example_api (example_view 2) = Inr u' \<and>
          workers u' =
            [\<lparr>w_operation = Update_atlas, w_atlas_name = ''mpin_zfish_1um'',
              w_signal = Update_atlas_confirmed, w_operation_type = ''Updating''\<rparr>]) \<and>
   selected_atlas_name (init_view example_rows) = Inl AssertionError \<and>
   click_ok
     \<lparr>dialog_atlas_name = ''allen_mouse_100um'', dialog_action = ''Update'',
       ok_clicked = On_update_atlas_confirmed\<rparr>
     example_api (init_view example_rows) = Inl AssertionError \<and>
   emitted
     (run_worker
        \<lparr>w_operation = Update_atlas, w_atlas_name = ''mpin_zfish_1um'',
          w_signal = Update_atlas_confirmed, w_operation_type = ''Updating''\<rparr>
        [(5, 5)] (Some ''updated'') (example_view 2)) =
     [Progress_updated 5 5 ''mpin_zfish_1um'' ''Updating'',
      Confirmed Update_atlas_confirmed ''updated'']"
proof -
  have h1: "selected_atlas_name (example_view 0) = Inr ''allen_mouse_100um''"
    by (rule selected_example_view)
  have h2: "cached_downloaded_atlases (example_view 0) =
      Some [''allen_mouse_100um'', ''mpin_zfish_1um'']"
    by (rule cached_example_view)
  have h3: "''allen_mouse_100um'' \<in> set [''allen_mouse_100um'', ''mpin_zfish_1um'']"
    by simp
  have h4: "cached_atlas_versions (example_view 0) = Some (atlases_lastversions example_api)"
    by (rule cached_example_view)
  have h5: "atlases_lastversions example_api ''allen_mouse_100um'' = Some \<lparr>updated = False\<rparr>"
    by (simp add: example_api_def)
  have h6: "\<not> updated \<lparr>updated = False\<rparr>"
    by simp
  have u1: "selected_atlas_name (example_view 2) = Inr ''mpin_zfish_1um''"
    by (rule selected_example_view)
  have u2: "selected_atlas_name (init_view example_rows) = Inl AssertionError"
    by (simp add: selected_atlas_name_def init_view_def)
  have e: "dialogs (example_view 0) = [] \<and> workers (example_view 2) = [] \<and>
      emitted (example_view 2) = []"
    by (simp add: example_view_def)
  have s: "signal_int 5 = 5"
    by (simp add: signal_int_def)
  show ?thesis
    using h1 h2 h3 h4 h5 u1 u2 e s
      double_click_update [OF h1 h2 h3 h4 h5 h6, where u = "example_view 2"
        and selected = "''mpin_zfish_1um''" and a = example_api
        and ticks = "[(5, 5)]" and result = "''updated''"
        and s = "example_view 2"]
      double_click_update [OF h1 h2 h3 h4 h5 h6, where u = "init_view example_rows"
        and e = AssertionError and a = example_api]
    by (auto simp: Let_def)
qed

text \<open>
  C8. When the selected atlas name is in the cached downloaded list and its cached entry
  has \<^verbatim>\<open>updated\<close> true, a double click returns with the view as it was: no dialog
  is opened and no worker started.
\<close>

theorem double_click_up_to_date:
  assumes "selected_atlas_name v = Inr atlas_name"
    and "cached_downloaded_atlases v = Some cached"
    and "atlas_name \<in> set cached"
    and "cached_atlas_versions v = Some versions"
    and "versions atlas_name = Some ver"
    and "updated ver"
  shows "on_row_double_clicked v = Inr v"
  using assms by (simp add: on_row_double_clicked_def)

theorem double_click_up_to_date_witness:
  "selected_atlas_name (example_view 2) = Inr ''mpin_zfish_1um'' \<and>
   cached_downloaded_atlases (example_view 2) = Some [''allen_mouse_100um'', ''mpin_zfish_1um''] \<and>
   ''mpin_zfish_1um'' \<in> set [''allen_mouse_100um'', ''mpin_zfish_1um''] \<and>
   cached_atlas_versions (example_view 2) = Some (atlases_lastversions example_api) \<and>
   atlases_lastversions example_api ''mpin_zfish_1um'' = Some \<lparr>updated = True\<rparr> \<and>
   updated \<lparr>updated = True\<rparr> \<and>
   on_row_double_clicked (example_view 2) = Inr (example_view 2) \<and>
   dialogs (example_view 2) = [] \<and> workers (example_view 2) = []"
proof -
  have h1: "selected_atlas_name (example_view 2) = Inr ''mpin_zfish_1um''"
    by (rule selected_example_view)
  have h2: "cached_downloaded_atlases (example_view 2) =
      Some [''allen_mouse_100um'', ''mpin_zfish_1um'']"
    by (rule cached_example_view)
  have h3: "''mpin_zfish_1um'' \<in> set [''allen_mouse_100um'', ''mpin_zfish_1um'']"
    by simp
  have h4: "cached_atlas_versions (example_view 2) = Some (atlases_lastversions example_api)"
    by (rule cached_example_view)
  have h5: "atlases_lastversions example_api ''mpin_zfish_1um'' = Some \<lparr>updated = True\<rparr>"
    by (simp add: example_api_def)
  have h6: "updated \<lparr>updated = True\<rparr>"
    by simp
  have "dialogs (example_view 2) = [] \<and> workers (example_view 2) = []"
    by (simp add: example_view_def)
  then show ?thesis
    using h1 h2 h3 h4 h5 double_click_up_to_date [OF h1 h2 h3 h4 h5 h6]
    by simp
qed

text \<open>
  The confirmation handlers do not take the atlas name from the dialog: they read the
  selection again, so the worker is for the atlas selected when the ok button is clicked.
\<close>

lemma click_ok_uses_current_selection:
  assumes "selected_atlas_name v = Inr atlas_name"
  shows "\<exists>v' w. click_ok d a v = Inr v' \<and> workers v' = workers v @ [w] \<and>
           w_atlas_name w = atlas_name"
  using assms
  by (cases "ok_clicked d")
    (simp_all add: click_ok_def on_download_atlas_confirmed_def
      on_update_atlas_confirmed_def refresh_cached_atlases_def start_worker_def)

subsection \<open>Selection\<close>

text \<open>
  C9. With a current index that is valid and lies on a row of the table,
  \<^verbatim>\<open>selected_atlas_name\<close> passes its assertion and returns the cell of that row in the
  first column; without a valid current index it fails the assertion.
\<close>

theorem selected_atlas_name_contract:
  "(current_index v = Some (r, c) \<and> r < length (table v) \<and> table v ! r \<noteq> [] \<longrightarrow>
      selected_atlas_name v = Inr (table v ! r ! 0)) \<and>
   (current_index v = None \<longrightarrow> selected_atlas_name v = Inl AssertionError)"
  by (simp add: selected_atlas_name_def model_data_def)

theorem selected_atlas_name_contract_witness:
  "current_index (example_view 1) = Some (1, 1) \<and> 1 < length (table (example_view 1)) \<and>
   table (example_view 1) ! 1 \<noteq> [] \<and>
   table (example_view 1) ! 1 ! 0 = ''example_mouse_100um'' \<and>
   selected_atlas_name (example_view 1) = Inr ''example_mouse_100um'' \<and>
   current_index (init_view example_rows) = None \<and>
   selected_atlas_name (init_view example_rows) = Inl AssertionError"
proof -
  have h1: "current_index (example_view 1) = Some (1, 1) \<and>
      1 < length (table (example_view 1)) \<and> table (example_view 1) ! 1 \<noteq> []"
    by (simp add: example_view_def example_rows_def)
  have h2: "table (example_view 1) ! 1 ! 0 = ''example_mouse_100um''"
    by (simp add: example_view_def example_rows_def)
  have h3: "current_index (init_view example_rows) = None"
    by (simp add: init_view_def)
  show ?thesis
    using h1 h2 h3
      selected_atlas_name_contract [of "example_view 1" 1 1]
      selected_atlas_name_contract [of "init_view example_rows"]
    by simp
qed

text \<open>
  C10. A freshly constructed view has neither cached attribute. Whatever is selected in
  it, a double click raises instead of opening a dialog; with a row of the table selected
  the error is the \<^verbatim>\<open>AttributeError\<close> of reading the cached downloaded list.
\<close>

theorem fresh_view_double_click_fails:
  "cached_downloaded_atlases (init_view rows) = None \<and>
   cached_atlas_versions (init_view rows) = None \<and>
   isl (on_row_double_clicked ((init_view rows)\<lparr>current_index := idx\<rparr>)) \<and>
   (r < length rows \<and> rows ! r \<noteq> [] \<longrightarrow>
      on_row_double_clicked ((init_view rows)\<lparr>current_index := Some (r, c)\<rparr>) =
        Inl AttributeError)"
  by (auto simp: on_row_double_clicked_def selected_atlas_name_def model_data_def
      init_view_def split: option.splits sum.splits)

theorem fresh_view_double_click_fails_witness:
  "1 < length example_rows \<and> example_rows ! 1 \<noteq> [] \<and>
   on_row_double_clicked ((init_view example_rows)\<lparr>current_index := Some (1, 1)\<rparr>) =
     Inl AttributeError"
proof -
  have h: "1 < length example_rows \<and> example_rows ! 1 \<noteq> []"
    by (simp add: example_rows_def)
  show ?thesis
    using h fresh_view_double_click_fails [of example_rows _ 1 1]
    by simp
qed

subsection \<open>Tooltip\<close>

text \<open>
  C3. For an atlas name in the downloaded list whose entry among the latest versions has
  \<^verbatim>\<open>updated\<close> true, the tooltip is the formatted name followed by " is up-to-date";
  with \<^verbatim>\<open>updated\<close> false, by " (double-click to update)"; for a name not in the
  downloaded list that is a key of all latest versions, by " (double-click to download)".
\<close>

theorem tooltip_text_cases:
  "(atlas_name \<in> set (downloaded_atlases a) \<and>
      atlases_lastversions a atlas_name = Some ver \<and> updated ver \<longrightarrow>
      get_tooltip_text fmt a atlas_name = Inr (fmt atlas_name @ '' is up-to-date'')) \<and>
   (atlas_name \<in> set (downloaded_atlases a) \<and>
      atlases_lastversions a atlas_name = Some ver \<and> \<not> updated ver \<longrightarrow>
      get_tooltip_text fmt a atlas_name = Inr (fmt atlas_name @ '' (double-click to update)'')) \<and>
   (atlas_name \<notin> set (downloaded_atlases a) \<and>
      atlas_name \<in> dom (all_atlases_lastversions a) \<longrightarrow>
      get_tooltip_text fmt a atlas_name =
        Inr (fmt atlas_name @ '' (double-click to download)''))"
  by (simp add: get_tooltip_text_def)

theorem tooltip_text_cases_witness:
  "(''mpin_zfish_1um'' \<in> set (downloaded_atlases example_api) \<and>
      atlases_lastversions example_api ''mpin_zfish_1um'' = Some \<lparr>updated = True\<rparr> \<and>
      updated \<lparr>updated = True\<rparr>) \<and>
   get_tooltip_text id example_api ''mpin_zfish_1um'' = Inr ''mpin_zfish_1um is up-to-date'' \<and>
   (''allen_mouse_100um'' \<in> set (downloaded_atlases example_api) \<and>
      atlases_lastversions example_api ''allen_mouse_100um'' = Some \<lparr>updated = False\<rparr> \<and>
      \<not> updated \<lparr>updated = False\<rparr>) \<and>
   get_tooltip_text id example_api ''allen_mouse_100um'' =
     Inr ''allen_mouse_100um (double-click to update)'' \<and>
   (''example_mouse_100um'' \<notin> set (downloaded_atlases example_api) \<and>
      ''example_mouse_100um'' \<in> dom (all_atlases_lastversions example_api)) \<and>
   get_tooltip_text id example_api ''example_mouse_100um'' =
     Inr ''example_mouse_100um (double-click to download)''"
proof -
  have h1: "''mpin_zfish_1um'' \<in> set (downloaded_atlases example_api) \<and>
      atlases_lastversions example_api ''mpin_zfish_1um'' = Some \<lparr>updated = True\<rparr> \<and>
      updated \<lparr>updated = True\<rparr>"
    by (simp add: example_api_def)
  have h2: "''allen_mouse_100um'' \<in> set (downloaded_atlases example_api) \<and>
      atlases_lastversions example_api ''allen_mouse_100um'' = Some \<lparr>updated = False\<rparr> \<and>
      \<not> updated \<lparr>updated = False\<rparr>"
    by (simp add: example_api_def)
  have h3: "''example_mouse_100um'' \<notin> set (downloaded_atlases example_api) \<and>
      ''example_mouse_100um'' \<in> dom (all_atlases_lastversions example_api)"
    by (simp add: example_api_def)
  show ?thesis
    using h1 h2 h3
      tooltip_text_cases [of "''mpin_zfish_1um''" example_api "\<lparr>updated = True\<rparr>" id]
      tooltip_text_cases [of "''allen_mouse_100um''" example_api "\<lparr>updated = False\<rparr>" id]
      tooltip_text_cases [of "''example_mouse_100um''" example_api _ id]
    by simp
qed

text \<open>
  C4, as the code has it. The claim that the tooltip raises only for a name absent from
  both the downloaded list and all latest versions fails: a name in the downloaded list
  that has no entry among the latest versions raises too, at the dictionary lookup.
\<close>

theorem tooltip_error_counterexample:
  "''my_custom_10um'' \<in> set (downloaded_atlases custom_api) \<and>
   get_tooltip_text id custom_api ''my_custom_10um'' = Inl KeyError"
  by (simp add: get_tooltip_text_def custom_api_def)

text \<open>
  C4, amended. The tooltip raises in exactly two cases: for a name absent from both the
  downloaded list and all latest versions, with the \<^verbatim>\<open>ValueError\<close> of an invalid
  name, and for a name in the downloaded list that has no entry among the latest
  versions, with the \<^verbatim>\<open>KeyError\<close> of the lookup. For every other name it returns a
  string.
\<close>

theorem tooltip_raises_exactly:
  "(get_tooltip_text fmt a atlas_name = Inl ValueError \<longleftrightarrow>
      atlas_name \<notin> set (downloaded_atlases a) \<and>
      atlas_name \<notin> dom (all_atlases_lastversions a)) \<and>
   (get_tooltip_text fmt a atlas_name = Inl KeyError \<longleftrightarrow>
      atlas_name \<in> set (downloaded_atlases a) \<and>
      atlas_name \<notin> dom (atlases_lastversions a)) \<and>
   (isl (get_tooltip_text fmt a atlas_name) \<longleftrightarrow>
      get_tooltip_text fmt a atlas_name = Inl ValueError \<or>
      get_tooltip_text fmt a atlas_name = Inl KeyError) \<and>
   (\<not> isl (get_tooltip_text fmt a atlas_name) \<longleftrightarrow>
      atlas_name \<in> set (downloaded_atlases a) \<and> atlas_name \<in> dom (atlases_lastversions a) \<or>
      atlas_name \<notin> set (downloaded_atlases a) \<and>
      atlas_name \<in> dom (all_atlases_lastversions a))"
  by (auto simp: get_tooltip_text_def split: option.splits)

theorem tooltip_raises_exactly_witness:
  "(''allen_mouse_100um'' \<in> set (downloaded_atlases example_api) \<and>
      ''allen_mouse_100um'' \<in> dom (atlases_lastversions example_api)) \<and>
   \<not> isl (get_tooltip_text id example_api ''allen_mouse_100um'') \<and>
   (''example_mouse_100um'' \<notin> set (downloaded_atlases example_api) \<and>
      ''example_mouse_100um'' \<in> dom (all_atlases_lastversions example_api)) \<and>
   \<not> isl (get_tooltip_text id example_api ''example_mouse_100um'') \<and>
   (''no_such_atlas'' \<notin> set (downloaded_atlases example_api) \<and>
      ''no_such_atlas'' \<notin> dom (all_atlases_lastversions example_api)) \<and>
   get_tooltip_text id example_api ''no_such_atlas'' = Inl ValueError \<and>
   (''my_custom_10um'' \<in> set (downloaded_atlases custom_api) \<and>
      ''my_custom_10um'' \<notin> dom (atlases_lastversions custom_api)) \<and>
   get_tooltip_text id custom_api ''my_custom_10um'' = Inl KeyError"
proof -
  have h1: "''allen_mouse_100um'' \<in> set (downloaded_atlases example_api) \<and>
      ''allen_mouse_100um'' \<in> dom (atlases_lastversions example_api)"
    by (simp add: example_api_def)
  have h2: "''example_mouse_100um'' \<notin> set (downloaded_atlases example_api) \<and>
      ''example_mouse_100um'' \<in> dom (all_atlases_lastversions example_api)"
    by (simp add: example_api_def)
  have h3: "''no_such_atlas'' \<notin> set (downloaded_atlases example_api) \<and>
      ''no_such_atlas'' \<notin> dom (all_atlases_lastversions example_api)"
    by (simp add: example_api_def)
  have h4: "''my_custom_10um'' \<in> set (downloaded_atlases custom_api) \<and>
      ''my_custom_10um'' \<notin> dom (atlases_lastversions custom_api)"
    by (simp add: custom_api_def)
  show ?thesis
    using h1 h2 h3 h4
      tooltip_raises_exactly [of id example_api "''allen_mouse_100um''"]
      tooltip_raises_exactly [of id example_api "''example_mouse_100um''"]
      tooltip_raises_exactly [of id example_api "''no_such_atlas''"]
      tooltip_raises_exactly [of id custom_api "''my_custom_10um''"]
    by simp
qed

subsection \<open>Progress and completion\<close>




text \<open>
  C6, as the code has it. The claim that the cache is not refreshed before the worker
  completes fails: the handler of a confirmed download returns with the worker started,
  no completion signal emitted, and the cache already replaced by what the API holds;
  the completion of the worker leaves the cache as it finds it.
\<close>

theorem refresh_on_completion_counterexample:
  "cached_downloaded_atlases (stale_view 1) = Some [] \<and>
   on_download_atlas_confirmed example_api (stale_view 1) =
     Inr \<lparr>table = example_rows, current_index = Some (1, 1),
          cached_downloaded_atlases = Some [''allen_mouse_100um'', ''mpin_zfish_1um''],
          cached_atlas_versions = Some (atlases_lastversions example_api),
          dialogs = [],
          workers = [\<lparr>w_operation = Install_atlas, w_atlas_name = ''example_mouse_100um'',
                      w_signal = Download_atlas_confirmed,
                      w_operation_type = ''Downloading''\<rparr>],
          emitted = []\<rparr> \<and>
   cached_downloaded_atlases
     (worker_returned
        \<lparr>w_operation = Install_atlas, w_atlas_name = ''example_mouse_100um'',
          w_signal = Download_atlas_confirmed, w_operation_type = ''Downloading''\<rparr>
        ''example_mouse_100um'' (stale_view 1)) = Some []"
  by (simp add: on_download_atlas_confirmed_def selected_atlas_name_def model_data_def
      refresh_cached_atlases_def start_worker_def worker_returned_def
      stale_view_def example_rows_def example_api_def)

text \<open>
  C6, amended. When a download or an update is confirmed, the handler starts the worker
  and then, before it returns and so before the completion of the worker is seen,
  replaces both cached attributes by what the API holds at that moment, emitting nothing;
  the run of the worker up to and including its completion signal leaves both cached
  attributes at those values.
\<close>

theorem refresh_at_dispatch:
  assumes "on_download_atlas_confirmed a v = Inr v' \<or> on_update_atlas_confirmed a v = Inr v'"
  shows "cached_downloaded_atlases v' = Some (downloaded_atlases a) \<and>
         cached_atlas_versions v' = Some (atlases_lastversions a) \<and>
         emitted v' = emitted v \<and>
         (\<exists>w. workers v' = workers v @ [w] \<and>
              cached_downloaded_atlases (run_worker w ticks outcome v') =
                Some (downloaded_atlases a) \<and>
              cached_atlas_versions (run_worker w ticks outcome v') =
                Some (atlases_lastversions a))"
  using assms
  by (auto simp: on_download_atlas_confirmed_def on_update_atlas_confirmed_def
      refresh_cached_atlases_def start_worker_def run_worker_cached
      split: sum.splits)

theorem refresh_at_dispatch_witness:
  "on_update_atlas_confirmed example_api (stale_view 0) =
     Inr \<lparr>table = example_rows, current_index = Some (0, 1),
          cached_downloaded_atlases = Some [''allen_mouse_100um'', ''mpin_zfish_1um''],
          cached_atlas_versions = Some (atlases_lastversions example_api),
          dialogs = [],
          workers = [\<lparr>w_operation = Update_atlas, w_atlas_name = ''allen_mouse_100um'',
                      w_signal = Update_atlas_confirmed, w_operation_type = ''Updating''\<rparr>],
          emitted = []\<rparr> \<and>
   cached_downloaded_atlases
     (run_worker
        \<lparr>w_operation = Update_atlas, w_atlas_name = ''allen_mouse_100um'',
          w_signal = Update_atlas_confirmed, w_operation_type = ''Updating''\<rparr>
        [(1, 2), (2, 2)] (Some ''allen_mouse_100um'')
        \<lparr>table = example_rows, current_index = Some (0, 1),
          cached_downloaded_atlases = Some [''allen_mouse_100um'', ''mpin_zfish_1um''],
          cached_atlas_versions = Some (atlases_lastversions example_api),
          dialogs = [],
          workers = [\<lparr>w_operation = Update_atlas, w_atlas_name = ''allen_mouse_100um'',
                      w_signal = Update_atlas_confirmed, w_operation_type = ''Updating''\<rparr>],
          emitted = []\<rparr>) =
     Some (downloaded_atlases example_api)"
proof -
  have h: "on_update_atlas_confirmed example_api (stale_view 0) =
     Inr \<lparr>table = example_rows, current_index = Some (0, 1),
          cached_downloaded_atlases = Some [''allen_mouse_100um'', ''mpin_zfish_1um''],
          cached_atlas_versions = Some (atlases_lastversions example_api),
          dialogs = [],
          workers = [\<lparr>w_operation = Update_atlas, w_atlas_name = ''allen_mouse_100um'',
                      w_signal = Update_atlas_confirmed, w_operation_type = ''Updating''\<rparr>],
          emitted = []\<rparr>"
    by (rule on_update_stale_view_0)
  have w: "workers (stale_view 0) = []"
    by (simp add: stale_view_def)
  show ?thesis
    using h w refresh_at_dispatch [OF disjI2, OF h, of "[(1, 2), (2, 2)]" "Some ''allen_mouse_100um''"]
    by auto
qed

text \<open>
  C7. The two cached attributes are left as they are by a double click, by a progress
  callback, by the completion slot and by a whole run of a worker; the handler of a
  confirmed download or update sets both, whatever they held, to what the API returns when
  the handler runs, and does so before any completion signal is emitted. The tooltip is
  computed from the API alone and has no view to change.
\<close>

theorem cached_written_only_by_refresh:
  "(on_row_double_clicked v = Inr v' \<longrightarrow>
      cached_downloaded_atlases v' = cached_downloaded_atlases v \<and>
      cached_atlas_versions v' = cached_atlas_versions v) \<and>
   cached_downloaded_atlases (update_fn w c t v) = cached_downloaded_atlases v \<and>
   cached_atlas_versions (update_fn w c t v) = cached_atlas_versions v \<and>
   cached_downloaded_atlases (worker_returned w result v) = cached_downloaded_atlases v \<and>
   cached_atlas_versions (worker_returned w result v) = cached_atlas_versions v \<and>
   cached_downloaded_atlases (run_worker w ticks outcome v) = cached_downloaded_atlases v \<and>
   cached_atlas_versions (run_worker w ticks outcome v) = cached_atlas_versions v \<and>
   (on_download_atlas_confirmed a v = Inr v' \<longrightarrow>
      cached_downloaded_atlases v' = Some (downloaded_atlases a) \<and>
      cached_atlas_versions v' = Some (atlases_lastversions a) \<and>
      emitted v' = emitted v) \<and>
   (on_update_atlas_confirmed a v = Inr v' \<longrightarrow>
      cached_downloaded_atlases v' = Some (downloaded_atlases a) \<and>
      cached_atlas_versions v' = Some (atlases_lastversions a) \<and>
      emitted v' = emitted v)"
proof -
  have "on_row_double_clicked v = Inr v' \<longrightarrow>
      cached_downloaded_atlases v' = cached_downloaded_atlases v \<and>
      cached_atlas_versions v' = cached_atlas_versions v"
    using on_row_double_clicked_cached by blast
  moreover have "on_download_atlas_confirmed a v = Inr v' \<longrightarrow>
      cached_downloaded_atlases v' = Some (downloaded_atlases a) \<and>
      cached_atlas_versions v' = Some (atlases_lastversions a) \<and>
      emitted v' = emitted v"
    by (auto simp: on_download_atlas_confirmed_def refresh_cached_atlases_def
        start_worker_def split: sum.splits)
  moreover have "on_update_atlas_confirmed a v = Inr v' \<longrightarrow>
      cached_downloaded_atlases v' = Some (downloaded_atlases a) \<and>
      cached_atlas_versions v' = Some (atlases_lastversions a) \<and>
      emitted v' = emitted v"
    by (auto simp: on_update_atlas_confirmed_def refresh_cached_atlases_def
        start_worker_def split: sum.splits)
  ultimately show ?thesis
    by (simp add: update_fn_def worker_returned_def run_worker_cached)
qed

theorem cached_written_only_by_refresh_witness:
  "on_row_double_clicked (example_view 1) =
     Inr ((example_view 1)\<lparr>dialogs :=
       [\<lparr>dialog_atlas_name = ''example_mouse_100um'', dialog_action = ''Download'',
         ok_clicked = On_download_atlas_confirmed\<rparr>]\<rparr>) \<and>
   cached_downloaded_atlases ((example_view 1)\<lparr>dialogs :=
       [\<lparr>dialog_atlas_name = ''example_mouse_100um'', dialog_action = ''Download'',
         ok_clicked = On_download_atlas_confirmed\<rparr>]\<rparr>) =
     cached_downloaded_atlases (example_view 1) \<and>
   (\<exists>v'. on_download_atlas_confirmed example_api (stale_view 1) = Inr v' \<and>
      cached_downloaded_atlases v' = Some (downloaded_atlases example_api) \<and>
      cached_atlas_versions v' = Some (atlases_lastversions example_api) \<and>
      emitted v' = emitted (stale_view 1)) \<and>
   (\<exists>v'. on_update_atlas_confirmed example_api (stale_view 0) = Inr v' \<and>
      cached_downloaded_atlases v' = Some (downloaded_atlases example_api) \<and>
      cached_atlas_versions v' = Some (atlases_lastversions example_api) \<and>
      emitted v' = emitted (stale_view 0))"
proof -
  let ?v1 = "(example_view 1)\<lparr>dialogs :=
       [\<lparr>dialog_atlas_name = ''example_mouse_100um'', dialog_action = ''Download'',
         ok_clicked = On_download_atlas_confirmed\<rparr>]\<rparr>"
  have h1: "on_row_double_clicked (example_view 1) = Inr ?v1"
    by (rule double_click_example_view_1)
  obtain v2 where h2: "on_download_atlas_confirmed example_api (stale_view 1) = Inr v2"
    using on_download_stale_view_1 by blast
  obtain v3 where h3: "on_update_atlas_confirmed example_api (stale_view 0) = Inr v3"
    using on_update_stale_view_0 by blast
  show ?thesis
    using h1 h2 h3
      cached_written_only_by_refresh [where v = "example_view 1" and v' = ?v1]
      cached_written_only_by_refresh
        [where v = "stale_view 1" and v' = v2 and a = example_api]
      cached_written_only_by_refresh
        [where v = "stale_view 0" and v' = v3 and a = example_api]
    by simp
qed

subsection \<open>A fresh view on its own\<close>

text \<open>
  As long as only the view's own connections act on a freshly constructed view, it stays
  without cached attributes, dialogs, workers and emissions: the one handler that would
  assign the cache is reached only through a dialog, and every double click raises before
  opening one.
\<close>

lemma fresh_view_stays_fresh:
  assumes "reachable rows v"
  shows "cached_downloaded_atlases v = None \<and> cached_atlas_versions v = None \<and>
         dialogs v = [] \<and> workers v = [] \<and> emitted v = []"
  using assms
proof (induction rule: reachable.induct)
  case constructed
  show ?case by (simp add: init_view_def)
next
  case (selection_changed v idx)
  then show ?case by simp
next
  case (double_clicked v v')
  then show ?case
    by (simp add: on_row_double_clicked_def split: sum.splits)
next
  case (ok_clicked v d a v')
  then show ?case by simp
next
  case (progress_reported v w completed total')
  then show ?case by simp
next
  case (returned v w result)
  then show ?case by simp
qed

lemma reachable_double_click_fails:
  assumes "reachable rows v"
  shows "isl (on_row_double_clicked v)"
  using fresh_view_stays_fresh [OF assms]
  by (simp add: on_row_double_clicked_def split: sum.splits)

end
